theory Spec2Isabelle
  imports Main
begin

section \<open>JavaScript values and strings\<close>

text \<open>
  Strings are lists of code units read as Latin-1 (code units 0 to 255). Request and
  response bodies are JSON values whose numbers are integers. A missing property
  (\<open>undefined\<close>) is \<open>None\<close>.
\<close>

datatype jvalue =
    JNull
  | JBool bool
  | JNum int
  | JStr string
  | JObj "(string \<times> jvalue) list"

text \<open>\<open>String.prototype.toLowerCase\<close> on Latin-1 code units.\<close>

definition lowerChar :: "char \<Rightarrow> char" where
  "lowerChar c = (let n = (of_char c :: nat) in
     if (65 \<le> n \<and> n \<le> 90) \<or> (192 \<le> n \<and> n \<le> 222 \<and> n \<noteq> 215)
     then char_of (n + 32) else c)"

definition toLowerCase :: "string \<Rightarrow> string" where
  "toLowerCase s = map lowerChar s"

text \<open>\<open>String.prototype.trim\<close>: tab, LF, VT, FF, CR, space and NBSP are white space.\<close>

definition isSpace :: "char \<Rightarrow> bool" where
  "isSpace c = (of_char c \<in> {9, 10, 11, 12, 13, 32, 160 :: nat})"

definition trim :: "string \<Rightarrow> string" where
  "trim s = rev (dropWhile isSpace (rev (dropWhile isSpace s)))"

definition startsWith :: "string \<Rightarrow> string \<Rightarrow> bool" where
  "startsWith s p = (take (length p) s = p)"

text \<open>Decimal printing of an integer, as \<open>String(n)\<close> and template literals do.\<close>

function string_of_nat :: "nat \<Rightarrow> string" where
  "string_of_nat n =
     (if n < 10 then [''0123456789'' ! n]
      else string_of_nat (n div 10) @ [''0123456789'' ! (n mod 10)])"
  by pat_completeness auto
termination
  by (relation "measure id") auto

declare string_of_nat.simps [simp del]

definition string_of_int :: "int \<Rightarrow> string" where
  "string_of_int i =
     (if i < 0 then CHR ''-'' # string_of_nat (nat (- i)) else string_of_nat (nat i))"

text \<open>Truthiness of a possibly missing value (\<open>if (v)\<close>, \<open>!v\<close>, \<open>v ? a : b\<close>).\<close>

fun truthy :: "jvalue option \<Rightarrow> bool" where
  "truthy None = False"
| "truthy (Some JNull) = False"
| "truthy (Some (JBool b)) = b"
| "truthy (Some (JNum n)) = (n \<noteq> 0)"
| "truthy (Some (JStr s)) = (s \<noteq> [])"
| "truthy (Some (JObj kvs)) = True"


section \<open>Token claims\<close>

text \<open>
  A value inside the decoded claims of a token, as \<open>JSON.parse\<close> builds it. A number is
  given by the text JavaScript prints for it: the decimal digits of an integer below
  \<open>10^21\<close> in magnitude (\<open>42\<close>, \<open>-7\<close>), and otherwise what \<open>Number.prototype.toString\<close>
  gives (\<open>1.5\<close>, \<open>1e+21\<close>); zero is \<open>0\<close>.
\<close>

datatype cvalue =
    CNull
  | CBool bool
  | CNum string
  | CStr string
  | CArr "cvalue list"
  | CObj "(string \<times> cvalue) list"

text \<open>The decoded claims of a token: the members of the JSON object that was signed.\<close>

type_synonym claims = "(string \<times> cvalue) list"

text \<open>A call that returns a value or throws.\<close>

datatype 'a result = Throws | Returns 'a

text \<open>Truthiness of a possibly missing claim (\<open>if (v)\<close>, \<open>!v\<close>, \<open>v ? a : b\<close>).\<close>

fun cTruthy :: "cvalue option \<Rightarrow> bool" where
  "cTruthy None = False"
| "cTruthy (Some CNull) = False"
| "cTruthy (Some (CBool b)) = b"
| "cTruthy (Some (CNum s)) = (s \<noteq> ''0'')"
| "cTruthy (Some (CStr s)) = (s \<noteq> [])"
| "cTruthy (Some (CArr xs)) = True"
| "cTruthy (Some (CObj kvs)) = True"

text \<open>An own property of a parsed object: of members with the same name the last one stays.\<close>

definition ownProp :: "(string \<times> cvalue) list \<Rightarrow> string \<Rightarrow> cvalue option" where
  "ownProp kvs k = map_of (rev kvs) k"

text \<open>
  Optional property access \<open>v?.k\<close> for the claim names read here: an object gives its own
  property, and a missing value, null, a boolean, a number, a string or an array gives
  \<open>undefined\<close>.
\<close>

fun claimProp :: "cvalue option \<Rightarrow> string \<Rightarrow> cvalue option" where
  "claimProp (Some (CObj kvs)) k = ownProp kvs k"
| "claimProp _ k = None"

text \<open>Nullish coalescing \<open>a ?? b\<close> and logical or \<open>a || b\<close>.\<close>

fun coalesce :: "cvalue option \<Rightarrow> cvalue option \<Rightarrow> cvalue option" where
  "coalesce None b = b"
| "coalesce (Some CNull) b = b"
| "coalesce a b = a"

definition lor :: "cvalue option \<Rightarrow> cvalue option \<Rightarrow> cvalue option" where
  "lor a b = (if cTruthy a then a else b)"

text \<open>\<open>Array.prototype.join\<close> with a comma, once every element has been coerced.\<close>

fun joinComma :: "string list \<Rightarrow> string" where
  "joinComma [] = []"
| "joinComma [s] = s"
| "joinComma (s # t # ss) = s @ '','' @ joinComma (t # ss)"

fun joinResults :: "string result list \<Rightarrow> string list result" where
  "joinResults [] = Returns []"
| "joinResults (Throws # rs) = Throws"
| "joinResults (Returns s # rs) =
     (case joinResults rs of Throws \<Rightarrow> Throws | Returns ss \<Rightarrow> Returns (s # ss))"

text \<open>
  \<open>String(v)\<close>. An array is joined with commas, null elements giving the empty string. An
  object prints as \<open>[object Object]\<close> through the inherited \<open>toString\<close>; an own member named
  \<open>toString\<close> hides it, is not callable, and the coercion throws a TypeError.
\<close>

fun jsString :: "cvalue \<Rightarrow> string result" where
  "jsString CNull = Returns ''null''"
| "jsString (CBool b) = Returns (if b then ''true'' else ''false'')"
| "jsString (CNum s) = Returns s"
| "jsString (CStr s) = Returns s"
| "jsString (CArr xs) =
     (case joinResults (map (\<lambda>x. if x = CNull then Returns [] else jsString x) xs) of
        Throws \<Rightarrow> Throws
      | Returns ss \<Rightarrow> Returns (joinComma ss))"
| "jsString (CObj kvs) =
     (if ownProp kvs ''toString'' = None then Returns ''[object Object]'' else Throws)"

text \<open>\<open>v ? String(v).toLowerCase() : undefined\<close> and \<open>v ? String(v) : null\<close>.\<close>

definition coerced :: "(string \<Rightarrow> string) \<Rightarrow> cvalue option \<Rightarrow> string option result" where
  "coerced f v =
     (case v of
        None \<Rightarrow> Returns None
      | Some x \<Rightarrow>
          if cTruthy v
          then (case jsString x of Throws \<Rightarrow> Throws | Returns s \<Rightarrow> Returns (Some (f s)))
          else Returns None)"

section \<open>server/middleware/auth.ts\<close>

text \<open>
  The request as the middleware sees it: the three headers and three cookies it reads,
  and the identity fields it attaches. A header or cookie that was not sent is \<open>None\<close>.
\<close>

record request =
  authorization :: "string option"
  x_auth_token :: "string option"
  x_admin_token :: "string option"
  cookie_token :: "string option"
  cookie_authToken :: "string option"
  cookie_adminToken :: "string option"
  userId :: "string option"
  userType :: "string option"
  role :: "string option"
  email :: "cvalue option"
  isAdmin :: "bool option"

text \<open>What a middleware does with a request: call \<open>next()\<close>, send a response, or throw.\<close>

datatype outcome = Next | Respond nat jvalue | Throw string

definition errorBody :: "string \<Rightarrow> jvalue" where
  "errorBody msg = JObj [(''success'', JBool False), (''error'', JStr msg)]"

text \<open>\<open>(h as string) || ""\<close>\<close>

definition orEmpty :: "string option \<Rightarrow> string" where
  "orEmpty h = (case h of None \<Rightarrow> [] | Some s \<Rightarrow> s)"

text \<open>\<open>a || b\<close> on cookie strings: the first non-empty one, else the last operand.\<close>

definition orStr :: "string option \<Rightarrow> string option \<Rightarrow> string option" where
  "orStr a b = (case a of Some (c # cs) \<Rightarrow> a | _ \<Rightarrow> b)"

definition pickToken :: "request \<Rightarrow> string option" where
  "pickToken req =
     (let auth = orEmpty (authorization req) in
      if startsWith (toLowerCase auth) ''bearer '' then Some (trim (drop 7 auth))
      else
        let xAuth = orEmpty (x_auth_token req);
            xAdmin = orEmpty (x_admin_token req) in
        if xAuth \<noteq> [] then Some (trim xAuth)
        else if xAdmin \<noteq> [] then Some (trim xAdmin)
        else
          (case orStr (orStr (cookie_token req) (cookie_authToken req)) (cookie_adminToken req) of
             Some (c # cs) \<Rightarrow> Some (trim (c # cs))
           | _ \<Rightarrow> None))"

text \<open>The six claim paths read by \<open>idFromPayload\<close>, in the order of the \<open>??\<close> chain.\<close>

definition idPaths :: "claims \<Rightarrow> cvalue option list" where
  "idPaths p =
     [claimProp (Some (CObj p)) ''userId'',
      claimProp (Some (CObj p)) ''id'',
      claimProp (Some (CObj p)) ''_id'',
      claimProp (claimProp (Some (CObj p)) ''user'') ''id'',
      claimProp (claimProp (Some (CObj p)) ''user'') ''_id'',
      claimProp (Some (CObj p)) ''sub'']"

definition idFromPayload :: "claims \<Rightarrow> string option result" where
  "idFromPayload p = coerced (\<lambda>s. s) (foldr coalesce (idPaths p) (Some CNull))"

definition getUserTypeFromPayload :: "claims \<Rightarrow> string option result" where
  "getUserTypeFromPayload p =
     coerced toLowerCase
       (foldr coalesce
          [claimProp (Some (CObj p)) ''userType'',
           claimProp (Some (CObj p)) ''type'',
           claimProp (Some (CObj p)) ''accountType'',
           claimProp (claimProp (Some (CObj p)) ''user'') ''userType'',
           claimProp (claimProp (Some (CObj p)) ''user'') ''type'',
           claimProp (claimProp (Some (CObj p)) ''user'') ''accountType''] None)"

definition getRoleFromPayload :: "claims \<Rightarrow> string option result" where
  "getRoleFromPayload p =
     coerced toLowerCase
       (foldr coalesce
          [claimProp (Some (CObj p)) ''role'',
           claimProp (Some (CObj p)) ''staffRole'',
           claimProp (Some (CObj p)) ''permissionRole'',
           claimProp (claimProp (Some (CObj p)) ''user'') ''role''] None)"

text \<open>The user type is read only when the three boolean claims are all falsy.\<close>

definition getIsAdminBool :: "claims \<Rightarrow> bool result" where
  "getIsAdminBool p =
     (if cTruthy (claimProp (Some (CObj p)) ''isAdmin'')
         \<or> claimProp (Some (CObj p)) ''admin'' = Some (CBool True)
         \<or> claimProp (claimProp (Some (CObj p)) ''user'') ''isAdmin'' = Some (CBool True)
      then Returns True
      else
        (case getUserTypeFromPayload p of
           Throws \<Rightarrow> Throws
         | Returns t \<Rightarrow> Returns (toLowerCase (orEmpty t) \<in> set [''admin'', ''staff''])))"

text \<open>
  The assignments of the \<open>try\<close> block of \<open>verifyAndAttach\<close> once the id is resolved. A
  coercion that throws is caught like a failed verification, after the fields assigned
  before it.
\<close>

definition attachIdentity :: "request \<Rightarrow> claims \<Rightarrow> string \<Rightarrow> bool \<times> request \<times> outcome option" where
  "attachIdentity req decoded uid =
     (let req1 = req\<lparr>userId := Some uid\<rparr> in
      case getUserTypeFromPayload decoded of
        Throws \<Rightarrow> (False, req1, Some (Respond 401 (errorBody ''Invalid or expired token'')))
      | Returns t \<Rightarrow>
          (let req2 = req1\<lparr>userType := t\<rparr> in
           case getRoleFromPayload decoded of
             Throws \<Rightarrow> (False, req2, Some (Respond 401 (errorBody ''Invalid or expired token'')))
           | Returns r \<Rightarrow>
               (let req3 = req2\<lparr>role := r,
                      email := lor (claimProp (Some (CObj decoded)) ''email'')
                                 (claimProp (claimProp (Some (CObj decoded)) ''user'') ''email'')\<rparr>
                in
                case getIsAdminBool decoded of
                  Throws \<Rightarrow>
                    (False, req3, Some (Respond 401 (errorBody ''Invalid or expired token'')))
                | Returns a \<Rightarrow> (True, req3\<lparr>isAdmin := Some a\<rparr>, None))))"

text \<open>
  \<open>verifyAndAttach\<close>. The signed-token library is the parameter \<open>verify\<close>:
  \<open>jwt.verify(token, JWT_SECRET)\<close> gives the decoded claims object, or throws (\<open>None\<close>)
  on a bad signature, a malformed token or an expired one. The result is the \<open>ok\<close>
  flag, the request after the call and the response written, if any.
\<close>

definition verifyAndAttach ::
  "(string \<Rightarrow> claims option) \<Rightarrow> request \<Rightarrow> bool \<times> request \<times> outcome option" where
  "verifyAndAttach verify req =
     (case pickToken req of
        None \<Rightarrow> (False, req, Some (Respond 401 (errorBody ''Access token required'')))
      | Some [] \<Rightarrow> (False, req, Some (Respond 401 (errorBody ''Access token required'')))
      | Some token \<Rightarrow>
          (case verify token of
             None \<Rightarrow> (False, req, Some (Respond 401 (errorBody ''Invalid or expired token'')))
           | Some decoded \<Rightarrow>
               (case idFromPayload decoded of
                  Throws \<Rightarrow>
                    (False, req, Some (Respond 401 (errorBody ''Invalid or expired token'')))
                | Returns None \<Rightarrow>
                    (False, req, Some (Respond 401 (errorBody ''Invalid token (no user id)'')))
                | Returns (Some []) \<Rightarrow>
                    (False, req, Some (Respond 401 (errorBody ''Invalid token (no user id)'')))
                | Returns (Some uid) \<Rightarrow> attachIdentity req decoded uid)))"

text \<open>
  A guard returns the request as it leaves the guard and what the guard did: \<open>None\<close> when
  it neither called \<open>next()\<close> nor wrote a response.
\<close>

definition authenticateToken ::
  "(string \<Rightarrow> claims option) \<Rightarrow> request \<Rightarrow> request \<times> outcome option" where
  "authenticateToken verify req =
     (case verifyAndAttach verify req of
        (ok, req', res) \<Rightarrow> (req', if ok then Some Next else res))"

text \<open>\<open>toLower(v) || ""\<close> and \<open>(v || "").toLowerCase()\<close> on an attached string field.\<close>

definition lowerOrEmpty :: "string option \<Rightarrow> string" where
  "lowerOrEmpty v = toLowerCase (orEmpty v)"

definition adminDecision :: "request \<Rightarrow> outcome" where
  "adminDecision req =
     (let userType' = lowerOrEmpty (userType req);
          role' = lowerOrEmpty (role req);
          isAdmin' = (isAdmin req = Some True);
          isAdminType = (userType' = ''admin'' \<or> userType' = ''staff'');
          isPrivRole = (role' \<in> set [''super_admin'', ''admin'']) in
      if \<not> isAdminType \<and> \<not> isPrivRole \<and> \<not> isAdmin'
      then Respond 403 (errorBody ''Admin access required'')
      else Next)"

definition requireAdmin ::
  "(string \<Rightarrow> claims option) \<Rightarrow> request \<Rightarrow> request \<times> outcome option" where
  "requireAdmin verify req =
     (case verifyAndAttach verify req of
        (ok, req', res) \<Rightarrow> (req', if ok then Some (adminDecision req') else res))"

definition sellerOrAgentDecision :: "request \<Rightarrow> outcome" where
  "sellerOrAgentDecision req =
     (if lowerOrEmpty (userType req) \<notin> set [''seller'', ''agent'', ''admin'', ''staff'']
      then Respond 403 (errorBody ''Seller or agent access required'')
      else Next)"

definition requireSellerOrAgent ::
  "(string \<Rightarrow> claims option) \<Rightarrow> request \<Rightarrow> request \<times> outcome option" where
  "requireSellerOrAgent verify req =
     (case verifyAndAttach verify req of
        (ok, req', res) \<Rightarrow> (req', if ok then Some (sellerOrAgentDecision req') else res))"

definition buyerDecision :: "request \<Rightarrow> outcome" where
  "buyerDecision req =
     (if lowerOrEmpty (userType req)
           \<notin> set [''seller'', ''user'', ''agent'', ''customer'', ''admin'', ''staff'']
      then Respond 401 (errorBody ''Login with a user/seller account'')
      else Next)"

definition requireBuyer ::
  "(string \<Rightarrow> claims option) \<Rightarrow> request \<Rightarrow> request \<times> outcome option" where
  "requireBuyer verify req =
     (case verifyAndAttach verify req of
        (ok, req', res) \<Rightarrow> (req', if ok then Some (buyerDecision req') else res))"

text \<open>
  \<open>rolePermissions[role]\<close>: the five own keys of the literal, and the names that every
  object inherits from \<open>Object.prototype\<close>, whose values are not arrays.
\<close>

datatype perms = Own "string list" | Inherited | Missing

definition objectPrototypeKeys :: "string list" where
  "objectPrototypeKeys =
     [''constructor'', ''__proto__'', ''hasOwnProperty'', ''isPrototypeOf'',
      ''propertyIsEnumerable'', ''toLocaleString'', ''toString'', ''valueOf'',
      ''__defineGetter__'', ''__defineSetter__'', ''__lookupGetter__'', ''__lookupSetter__'']"

definition rolePermissionsTable :: "(string \<times> string list) list" where
  "rolePermissionsTable =
     [(''super_admin'', [''*'']),
      (''content_manager'',
         [''content.view'', ''content.create'', ''content.manage'', ''blog.manage'', ''blog.view'']),
      (''sales_manager'',
         [''users.view'', ''sellers.manage'', ''sellers.verify'', ''sellers.view'',
          ''payments.view'', ''packages.manage'', ''ads.view'', ''analytics.view'']),
      (''support_executive'', [''users.view'', ''support.view'', ''reports.view'', ''content.view'']),
      (''admin'', [''content.view'', ''users.view'', ''ads.view'', ''analytics.view''])]"

definition rolePermissions :: "string \<Rightarrow> perms" where
  "rolePermissions r =
     (case map_of rolePermissionsTable r of
        Some ps \<Rightarrow> Own ps
      | None \<Rightarrow> if r \<in> set objectPrototypeKeys then Inherited else Missing)"

text \<open>The body of the guard returned by \<open>requirePermission(permission)\<close>, after verification.\<close>

definition permissionDecision :: "string \<Rightarrow> request \<Rightarrow> outcome" where
  "permissionDecision permission req =
     (let userType' = lowerOrEmpty (userType req);
          role' = lowerOrEmpty (role req);
          deny = Respond 403 (errorBody (''Permission required: '' @ permission)) in
      if userType' = ''admin'' then Next
      else if userType' = ''staff'' then
        (case rolePermissions role' of
           Own ps \<Rightarrow> if ''*'' \<in> set ps \<or> permission \<in> set ps then Next else deny
         | Missing \<Rightarrow> deny
         | Inherited \<Rightarrow> Throw ''TypeError: perms.includes is not a function'')
      else deny)"

definition requirePermission ::
  "string \<Rightarrow> (string \<Rightarrow> claims option) \<Rightarrow> request \<Rightarrow> request \<times> outcome option" where
  "requirePermission permission verify req =
     (case verifyAndAttach verify req of
        (ok, req', res) \<Rightarrow> (req', if ok then Some (permissionDecision permission req') else res))"

section \<open>The document store\<close>

text \<open>
  The two collections the quota code reads and writes. A document field is missing, null
  or holds a value. Dates are milliseconds since the epoch. The store is total: a failing
  database call (the handlers answer 500) is not part of the model.
\<close>

datatype 'a field = Absent | Null | Val 'a

record free_ad_settings =
  maxFreeAdsPerMonth :: int
  numberOfDays :: int
  isActive :: bool

record listing =
  title :: "jvalue option"
  ownerId :: string
  ownerType :: string
  status :: string
  approvalStatus :: string
  isApproved :: bool
  featured :: bool
  premium :: bool
  contactVisible :: bool
  isPaid :: "bool field"
  paymentStatus :: string
  packageId :: "string field"
  views :: int
  inquiries :: int
  createdAt :: int
  updatedAt :: int

record db =
  settingsDoc :: "free_ad_settings option"
  properties :: "listing list"

text \<open>The database calls a handler makes, in order.\<close>

datatype db_op =
    FindSettings
  | InsertSettings free_ad_settings
  | CountProperties
  | InsertProperty listing

definition dayMs :: int where
  "dayMs = 24 * 60 * 60 * 1000"

section \<open>Free-ad settings routes\<close>

definition DEFAULT_SETTINGS :: free_ad_settings where
  "DEFAULT_SETTINGS = \<lparr>maxFreeAdsPerMonth = 2, numberOfDays = 30, isActive = True\<rparr>"

text \<open>\<open>getSettings\<close>: answers 200 with the settings, inserting the defaults when none are stored.\<close>

definition getSettings :: "db \<Rightarrow> free_ad_settings \<times> db \<times> db_op list" where
  "getSettings d =
     (case settingsDoc d of
        None \<Rightarrow>
          (DEFAULT_SETTINGS, d\<lparr>settingsDoc := Some DEFAULT_SETTINGS\<rparr>,
           [FindSettings, InsertSettings DEFAULT_SETTINGS])
      | Some st \<Rightarrow> (st, d, [FindSettings]))"

text \<open>\<open>String((req as any).userId)\<close>\<close>

definition userIdString :: "request \<Rightarrow> string" where
  "userIdString req = (case userId req of None \<Rightarrow> ''undefined'' | Some u \<Rightarrow> u)"

text \<open>
  The filter of \<open>checkUserFreeAdLimit\<close>:
  \<open>{ownerId, createdAt: {$gte}, isPaid: {$ne: true}, packageId: {$exists: false}}\<close>.
\<close>

definition checkLimitFilter :: "string \<Rightarrow> int \<Rightarrow> listing \<Rightarrow> bool" where
  "checkLimitFilter uid startDate l =
     (ownerId l = uid \<and> startDate \<le> createdAt l \<and> isPaid l \<noteq> Val True \<and> packageId l = Absent)"

datatype jsnum = Fin int | Infinity

record limit_data =
  canPostFree :: bool
  remaining :: jsnum
  limit :: jsnum
  used :: "int option"
  periodDays :: int
  nextResetDate :: "int option"
  systemActive :: bool

text \<open>
  \<open>checkUserFreeAdLimit\<close> at time \<open>now\<close>, answering 200 with \<open>{success: true, data}\<close>.
  \<open>setDate(getDate() - n)\<close> moves the date back \<open>n\<close> calendar days, taken as \<open>n\<close> days of
  24 hours (a server clock without daylight saving).
\<close>

definition checkUserFreeAdLimit :: "int \<Rightarrow> request \<Rightarrow> db \<Rightarrow> limit_data \<times> db \<times> db_op list" where
  "checkUserFreeAdLimit now req d =
     (let uid = userIdString req;
          settings = (case settingsDoc d of None \<Rightarrow> DEFAULT_SETTINGS | Some st \<Rightarrow> st) in
      if \<not> isActive settings then
        (\<lparr>canPostFree = True, remaining = Infinity, limit = Infinity, used = None,
          periodDays = numberOfDays settings, nextResetDate = None, systemActive = False\<rparr>,
         d, [FindSettings])
      else
        let startDate = now - numberOfDays settings * dayMs;
            freePostsCount = int (length (filter (checkLimitFilter uid startDate) (properties d)));
            remaining' = max 0 (maxFreeAdsPerMonth settings - freePostsCount);
            canPostFree' = (remaining' > 0) in
        (\<lparr>canPostFree = canPostFree', remaining = Fin remaining',
          limit = Fin (maxFreeAdsPerMonth settings), used = Some freePostsCount,
          periodDays = numberOfDays settings,
          nextResetDate = Some (startDate + numberOfDays settings * dayMs),
          systemActive = True\<rparr>,
         d, [FindSettings, CountProperties]))"

section \<open>Property creation\<close>

text \<open>
  The fields of the request body that decide moderation, payment and the quota gate, and the
  two environment variables read when no settings are stored (their numeric value when set).
\<close>

record create_body =
  b_title :: "jvalue option"
  b_packageId :: "jvalue option"
  b_premium :: "jvalue option"
  b_contactVisible :: "jvalue option"

record env =
  FREE_POST_LIMIT :: "int option"
  FREE_POST_PERIOD_DAYS :: "int option"

text \<open>The package id of a request: a string that is not blank, trimmed.\<close>

definition packageIdOf :: "create_body \<Rightarrow> string option" where
  "packageIdOf body =
     (case b_packageId body of
        Some (JStr s) \<Rightarrow> if trim s \<noteq> [] then Some (trim s) else None
      | _ \<Rightarrow> None)"

definition contactVisibleFlag :: "create_body \<Rightarrow> bool" where
  "contactVisibleFlag body =
     (case b_contactVisible body of
        Some (JStr s) \<Rightarrow> s = ''true''
      | v \<Rightarrow> truthy v)"

definition propertyData :: "int \<Rightarrow> request \<Rightarrow> create_body \<Rightarrow> string \<Rightarrow> listing" where
  "propertyData now req body uid =
     (let packageId' = packageIdOf body;
          providedPremium = (b_premium body = Some (JStr ''true''));
          approvalStatus' = (if packageId' \<noteq> None then ''pending_approval'' else ''pending'') in
      \<lparr>title = b_title body,
       ownerId = uid,
       ownerType = (case userType req of Some (c # cs) \<Rightarrow> c # cs | _ \<Rightarrow> ''seller''),
       status = ''inactive'',
       approvalStatus = approvalStatus',
       isApproved = False,
       featured = False,
       premium = (providedPremium \<or> packageId' \<noteq> None),
       contactVisible = contactVisibleFlag body,
       isPaid = Val False,
       paymentStatus = ''unpaid'',
       packageId = (case packageId' of Some pk \<Rightarrow> Val pk | None \<Rightarrow> Absent),
       views = 0,
       inquiries = 0,
       createdAt = now,
       updatedAt = now\<rparr>)"

text \<open>
  The filter of the quota gate in \<open>createProperty\<close>:
  \<open>{ownerId, createdAt: {$gte}, $or: [{packageId: {$exists: false}}, {packageId: null},
  {isPaid: false}]}\<close>; \<open>{packageId: null}\<close> matches a missing field and a null one.
\<close>

definition createGateFilter :: "string \<Rightarrow> int \<Rightarrow> listing \<Rightarrow> bool" where
  "createGateFilter uid periodStart l =
     (ownerId l = uid \<and> periodStart \<le> createdAt l \<and>
      (packageId l = Absent \<or> (packageId l = Absent \<or> packageId l = Null) \<or> isPaid l = Val False))"

definition envSettings :: "env \<Rightarrow> free_ad_settings" where
  "envSettings e =
     \<lparr>maxFreeAdsPerMonth = (case FREE_POST_LIMIT e of Some n \<Rightarrow> n | None \<Rightarrow> 5),
      numberOfDays = (case FREE_POST_PERIOD_DAYS e of Some n \<Rightarrow> n | None \<Rightarrow> 30),
      isActive = True\<rparr>"

definition limitReachedBody :: "free_ad_settings \<Rightarrow> int \<Rightarrow> jvalue" where
  "limitReachedBody st cnt =
     JObj [(''success'', JBool False),
           (''error'', JStr (''Free listing limit reached: You can post '' @
              string_of_int (maxFreeAdsPerMonth st) @ '' free ads every '' @
              string_of_int (numberOfDays st) @
              '' days. Please upgrade to a paid package to post more.'')),
           (''limitReached'', JBool True),
           (''freeAdLimit'',
              JObj [(''max'', JNum (maxFreeAdsPerMonth st)),
                    (''days'', JNum (numberOfDays st)),
                    (''used'', JNum cnt)])]"

definition createdBody :: "string \<Rightarrow> jvalue" where
  "createdBody propertyId =
     JObj [(''success'', JBool True), (''data'', JObj [(''_id'', JStr propertyId)])]"

text \<open>
  \<open>createProperty\<close> at time \<open>now\<close>; \<open>newId\<close> is the id the store gives the inserted
  document. The result is the response, the store afterwards and the database calls made.
  The confirmation and notification e-mails, whose failures are swallowed, and the text of
  the success message are left out.
\<close>

definition createProperty ::
  "int \<Rightarrow> env \<Rightarrow> string \<Rightarrow> request \<Rightarrow> create_body \<Rightarrow> db \<Rightarrow> outcome \<times> db \<times> db_op list" where
  "createProperty now e newId req body d =
     (case userId req of
        None \<Rightarrow> (Respond 401 (errorBody ''User not authenticated''), d, [])
      | Some [] \<Rightarrow> (Respond 401 (errorBody ''User not authenticated''), d, [])
      | Some uid \<Rightarrow>
          (let doc = propertyData now req body uid;
               freeAdSettings = (case settingsDoc d of None \<Rightarrow> envSettings e | Some st \<Rightarrow> st);
               inserted = (Respond 201 (createdBody newId), d\<lparr>properties := properties d @ [doc]\<rparr>)
           in
           if isActive freeAdSettings \<and> packageId doc = Absent then
             (let periodStart = now - numberOfDays freeAdSettings * dayMs;
                  freePostsCount =
                    int (length (filter (createGateFilter uid periodStart) (properties d)))
              in
              if freePostsCount \<ge> maxFreeAdsPerMonth freeAdSettings then
                (Respond 403 (limitReachedBody freeAdSettings freePostsCount), d,
                 [FindSettings, CountProperties])
              else
                (fst inserted, snd inserted, [FindSettings, CountProperties, InsertProperty doc]))
           else (fst inserted, snd inserted, [FindSettings, InsertProperty doc])))"

section \<open>The credential and identity rules as the specification words them\<close>

text \<open>A header or cookie holds a credential when it was sent and is not empty.\<close>

definition nonEmpty :: "string option \<Rightarrow> string option" where
  "nonEmpty h = (case h of Some (c # cs) \<Rightarrow> h | _ \<Rightarrow> None)"

text \<open>
  The six places a credential can come from, in the order of the specification. The
  \<open>Authorization\<close> header counts when it starts with \<open>Bearer \<close> in any letter case; its
  credential is what follows the prefix.
\<close>

definition specCredentialPlaces :: "request \<Rightarrow> string option list" where
  "specCredentialPlaces req =
     [if startsWith (toLowerCase (orEmpty (authorization req))) ''bearer ''
      then Some (drop 7 (orEmpty (authorization req))) else None,
      nonEmpty (x_auth_token req),
      nonEmpty (x_admin_token req),
      nonEmpty (cookie_token req),
      nonEmpty (cookie_authToken req),
      nonEmpty (cookie_adminToken req)]"

text \<open>First match wins.\<close>

fun specFirstMatch :: "'a option list \<Rightarrow> 'a option" where
  "specFirstMatch [] = None"
| "specFirstMatch (None # xs) = specFirstMatch xs"
| "specFirstMatch (Some x # xs) = Some x"


section \<open>Example requests and token payloads\<close>

definition emptyRequest :: request where
  "emptyRequest = \<lparr>authorization = None, x_auth_token = None, x_admin_token = None,
     cookie_token = None, cookie_authToken = None, cookie_adminToken = None,
     userId = None, userType = None, role = None, email = None, isAdmin = None\<rparr>"

definition bearerRequest :: "string \<Rightarrow> request" where
  "bearerRequest a = emptyRequest\<lparr>authorization := Some a\<rparr>"

definition tokenRequest :: request where
  "tokenRequest = bearerRequest ''Bearer t''"

text \<open>A verifier that accepts every token with the given claims, and one that rejects all.\<close>

definition constVerify :: "claims \<Rightarrow> string \<Rightarrow> claims option" where
  "constVerify p tok = Some p"

definition rejectVerify :: "string \<Rightarrow> claims option" where
  "rejectVerify tok = None"




definition adminPayload :: claims where
  "adminPayload = [(''id'', CStr ''u1''), (''userType'', CStr ''Admin'')]"

definition salesPayload :: claims where
  "salesPayload =
     [(''sub'', CStr ''u2''),
           (''user'', CObj [(''userType'', CStr ''staff''), (''role'', CStr ''Sales_Manager'')])]"

definition internPayload :: claims where
  "internPayload =
     [(''_id'', CStr ''u3''), (''type'', CStr ''STAFF''), (''staffRole'', CStr ''intern'')]"

definition sellerPayload :: claims where
  "sellerPayload = [(''userId'', CStr ''u4''), (''accountType'', CStr ''seller'')]"


definition constructorPayload :: claims where
  "constructorPayload =
     [(''id'', CStr ''u5''), (''userType'', CStr ''staff''), (''role'', CStr ''constructor'')]"




section \<open>Example stores and creation requests\<close>

definition ownerRequest :: request where
  "ownerRequest = emptyRequest\<lparr>userId := Some ''u1'', userType := Some ''seller''\<rparr>"

definition noEnv :: env where
  "noEnv = \<lparr>FREE_POST_LIMIT = None, FREE_POST_PERIOD_DAYS = None\<rparr>"

definition freeBody :: create_body where
  "freeBody = \<lparr>b_title = Some (JStr ''Flat''), b_packageId = None,
     b_premium = Some (JStr ''true''), b_contactVisible = None\<rparr>"

definition packageBody :: create_body where
  "packageBody = freeBody\<lparr>b_packageId := Some (JStr '' pkg1 '')\<rparr>"

definition limitOne :: free_ad_settings where
  "limitOne = \<lparr>maxFreeAdsPerMonth = 1, numberOfDays = 30, isActive = True\<rparr>"

definition limitTwo :: free_ad_settings where
  "limitTwo = \<lparr>maxFreeAdsPerMonth = 2, numberOfDays = 30, isActive = True\<rparr>"

definition disabledSettings :: free_ad_settings where
  "disabledSettings = \<lparr>maxFreeAdsPerMonth = 2, numberOfDays = 30, isActive = False\<rparr>"

definition emptyDb :: db where
  "emptyDb = \<lparr>settingsDoc = None, properties = []\<rparr>"

definition dbWith :: "free_ad_settings \<Rightarrow> listing list \<Rightarrow> db" where
  "dbWith st ls = \<lparr>settingsDoc = Some st, properties = ls\<rparr>"

text \<open>The documents \<open>createProperty\<close> writes for user \<open>u1\<close> without and with a package.\<close>

definition freeListing :: "int \<Rightarrow> listing" where
  "freeListing t = propertyData t ownerRequest freeBody ''u1''"

definition packageListing :: "int \<Rightarrow> listing" where
  "packageListing t = propertyData t ownerRequest packageBody ''u1''"

section \<open>Names for the quantities the quota claims speak of\<close>

text \<open>The settings each decision runs on, and the count each decision makes.\<close>

definition checkSettings :: "db \<Rightarrow> free_ad_settings" where
  "checkSettings d = (case settingsDoc d of None \<Rightarrow> DEFAULT_SETTINGS | Some st \<Rightarrow> st)"

definition checkCount :: "int \<Rightarrow> string \<Rightarrow> db \<Rightarrow> int" where
  "checkCount now uid d =
     int (length (filter (checkLimitFilter uid (now - numberOfDays (checkSettings d) * dayMs))
                    (properties d)))"



section \<open>Facts about strings\<close>

lemma of_char_lt: "(of_char c :: nat) < 256"
  by (cases c) (simp)

lemma lowerChar_idem: "lowerChar (lowerChar c) = lowerChar c"
proof -
  let ?n = "of_char c :: nat"
  have lt: "?n < 256" by (rule of_char_lt)
  show ?thesis
  proof (cases "(65 \<le> ?n \<and> ?n \<le> 90) \<or> (192 \<le> ?n \<and> ?n \<le> 222 \<and> ?n \<noteq> 215)")
    case True
    then have "(of_char (char_of (?n + 32)) :: nat) = ?n + 32" by auto
    with True show ?thesis by (auto simp: lowerChar_def Let_def)
  next
    case False
    then have "lowerChar c = c" unfolding lowerChar_def Let_def by (simp only: if_False)
    then show ?thesis by simp
  qed
qed

lemma toLowerCase_idem: "toLowerCase (toLowerCase s) = toLowerCase s"
  by (simp add: toLowerCase_def lowerChar_idem)

lemma toLowerCase_Nil: "toLowerCase [] = []"
  by (simp add: toLowerCase_def)


section \<open>The claims resolver\<close>

lemma nonEmpty_orEmpty:
  "nonEmpty h = (if orEmpty h = [] then None else Some (orEmpty h))"
  by (simp add: nonEmpty_def orEmpty_def split: option.splits list.splits)


lemma cookie_pick:
  "(case orStr (orStr a b) c of Some (x # xs) \<Rightarrow> Some (trim (x # xs)) | _ \<Rightarrow> None)
     = map_option trim (specFirstMatch [nonEmpty a, nonEmpty b, nonEmpty c])"
  by (auto simp: orStr_def nonEmpty_def split: option.splits list.splits)

lemma pickToken_spec:
  "pickToken req = map_option trim (specFirstMatch (specCredentialPlaces req))"
proof (cases "startsWith (toLowerCase (orEmpty (authorization req))) ''bearer ''")
  case True
  then show ?thesis by (simp add: pickToken_def specCredentialPlaces_def)
next
  case False
  note nb = this
  show ?thesis
  proof (cases "orEmpty (x_auth_token req) = []")
    case False
    with nb show ?thesis
      by (simp add: pickToken_def specCredentialPlaces_def nonEmpty_orEmpty)
  next
    case True
    note nx = this
    show ?thesis
    proof (cases "orEmpty (x_admin_token req) = []")
      case False
      with nb nx show ?thesis
        by (simp add: pickToken_def specCredentialPlaces_def nonEmpty_orEmpty)
    next
      case True
      have "pickToken req =
        (case orStr (orStr (cookie_token req) (cookie_authToken req)) (cookie_adminToken req) of
           Some (c # cs) \<Rightarrow> Some (trim (c # cs)) | _ \<Rightarrow> None)"
        using nb nx True by (simp add: pickToken_def)
      also have "\<dots> = map_option trim (specFirstMatch
          [nonEmpty (cookie_token req), nonEmpty (cookie_authToken req), nonEmpty (cookie_adminToken req)])"
        by (rule cookie_pick)
      also have "\<dots> = map_option trim (specFirstMatch (specCredentialPlaces req))"
        using nb nx True
        by (simp add: specCredentialPlaces_def nonEmpty_orEmpty [of "x_auth_token req"]
              nonEmpty_orEmpty [of "x_admin_token req"])
      finally show ?thesis .
    qed
  qed
qed



lemma verifyAndAttach_missing:
  "pickToken req = None \<Longrightarrow>
   verifyAndAttach verify req = (False, req, Some (Respond 401 (errorBody ''Access token required'')))"
  by (simp add: verifyAndAttach_def)



lemma verifyAndAttach_decoded:
  assumes "pickToken req = Some tok" and "tok \<noteq> []" and "verify tok = Some p"
  shows "verifyAndAttach verify req =
     (case idFromPayload p of
        Throws \<Rightarrow> (False, req, Some (Respond 401 (errorBody ''Invalid or expired token'')))
      | Returns None \<Rightarrow>
          (False, req, Some (Respond 401 (errorBody ''Invalid token (no user id)'')))
      | Returns (Some []) \<Rightarrow>
          (False, req, Some (Respond 401 (errorBody ''Invalid token (no user id)'')))
      | Returns (Some uid) \<Rightarrow> attachIdentity req p uid)"
  using assms
  by (cases tok)
     (simp_all add: verifyAndAttach_def split: result.splits option.splits list.splits)

lemma getIsAdminBool_returns:
  "getUserTypeFromPayload p = Returns t \<Longrightarrow> getIsAdminBool p \<noteq> Throws"
  by (simp add: getIsAdminBool_def)



lemma coerced_lower:
  "coerced toLowerCase v = Returns t \<Longrightarrow> lowerOrEmpty t = orEmpty t"
  by (auto simp: coerced_def lowerOrEmpty_def orEmpty_def toLowerCase_idem toLowerCase_Nil
        split: option.splits if_splits result.splits)

lemma attachIdentity_lower:
  assumes "attachIdentity req p uid = (True, req', res)"
  shows "res = None \<and> userId req' = Some uid \<and>
         lowerOrEmpty (userType req') = orEmpty (userType req') \<and>
         lowerOrEmpty (role req') = orEmpty (role req')"
proof -
  from assms obtain t r a where
    t: "getUserTypeFromPayload p = Returns t" and r: "getRoleFromPayload p = Returns r" and
    a: "getIsAdminBool p = Returns a"
    by (auto simp: attachIdentity_def Let_def split: result.splits)
  from assms t r a have "res = None" "userId req' = Some uid" "userType req' = t" "role req' = r"
    by (auto simp: attachIdentity_def Let_def)
  moreover have "lowerOrEmpty t = orEmpty t"
    using t coerced_lower unfolding getUserTypeFromPayload_def by blast
  moreover have "lowerOrEmpty r = orEmpty r"
    using r coerced_lower unfolding getRoleFromPayload_def by blast
  ultimately show ?thesis by simp
qed

lemma verifyAndAttach_ok:
  assumes "verifyAndAttach verify req = (True, req', res)"
  shows "res = None \<and> userId req' \<noteq> None \<and>
         lowerOrEmpty (userType req') = orEmpty (userType req') \<and>
         lowerOrEmpty (role req') = orEmpty (role req')"
proof -
  from assms obtain tok where tok: "pickToken req = Some tok" "tok \<noteq> []"
    by (auto simp: verifyAndAttach_def split: option.splits list.splits)
  with assms obtain p where p: "verify tok = Some p"
    by (cases tok) (auto simp: verifyAndAttach_def split: option.splits)
  from assms verifyAndAttach_decoded [of req tok verify p] tok p
  obtain uid where "attachIdentity req p uid = (True, req', res)"
    by (auto split: result.splits option.splits list.splits)
  from attachIdentity_lower [OF this] show ?thesis by simp
qed

lemma rolePermissions_sales:
  "rolePermissions ''sales_manager'' =
     Own [''users.view'', ''sellers.manage'', ''sellers.verify'', ''sellers.view'',
          ''payments.view'', ''packages.manage'', ''ads.view'', ''analytics.view'']"
  by (simp add: rolePermissions_def rolePermissionsTable_def)

lemma requirePermission_decisions:
  assumes ok: "verifyAndAttach verify req = (True, req', res)"
  shows "(userType req' = Some ''admin'' \<longrightarrow>
            requirePermission name verify req = (req', Some Next)) \<and>
         (userType req' = Some ''staff'' \<and> role req' = Some ''sales_manager'' \<longrightarrow>
            requirePermission ''sellers.manage'' verify req = (req', Some Next) \<and>
            requirePermission ''content.manage'' verify req =
              (req', Some (Respond 403 (errorBody ''Permission required: content.manage'')))) \<and>
         (userType req' = Some ''staff'' \<and>
          map_of rolePermissionsTable (orEmpty (role req')) = None \<longrightarrow>
            requirePermission name verify req \<noteq> (req', Some Next) \<and>
            (orEmpty (role req') \<notin> set objectPrototypeKeys \<longrightarrow>
               requirePermission name verify req =
                 (req', Some (Respond 403 (errorBody (''Permission required: '' @ name)))))) \<and>
         (orEmpty (userType req') \<noteq> ''admin'' \<and> orEmpty (userType req') \<noteq> ''staff'' \<longrightarrow>
            requirePermission name verify req =
              (req', Some (Respond 403 (errorBody (''Permission required: '' @ name)))))"
proof -
  have rp: "\<And>n. requirePermission n verify req = (req', Some (permissionDecision n req'))"
    using ok by (simp add: requirePermission_def)
  have lt: "lowerOrEmpty (userType req') = orEmpty (userType req')"
    and lr: "lowerOrEmpty (role req') = orEmpty (role req')"
    using verifyAndAttach_ok [OF ok] by simp_all
  have admin: "permissionDecision name req' = Next" if "userType req' = Some ''admin''"
  proof -
    from that lt have "lowerOrEmpty (userType req') = ''admin''" by (simp add: orEmpty_def)
    then show ?thesis by (simp add: permissionDecision_def Let_def)
  qed
  have sales: "permissionDecision ''sellers.manage'' req' = Next \<and>
      permissionDecision ''content.manage'' req' =
        Respond 403 (errorBody ''Permission required: content.manage'')"
    if "userType req' = Some ''staff'' \<and> role req' = Some ''sales_manager''"
  proof -
    from that lt have u: "lowerOrEmpty (userType req') = ''staff''" by (simp add: orEmpty_def)
    from that lr have r: "lowerOrEmpty (role req') = ''sales_manager''" by (simp add: orEmpty_def)
    show ?thesis by (simp add: permissionDecision_def Let_def u r rolePermissions_sales)
  qed
  have unknown: "permissionDecision name req' \<noteq> Next \<and>
      (orEmpty (role req') \<notin> set objectPrototypeKeys \<longrightarrow>
         permissionDecision name req' =
           Respond 403 (errorBody (''Permission required: '' @ name)))"
    if "userType req' = Some ''staff'' \<and>
        map_of rolePermissionsTable (orEmpty (role req')) = None"
  proof -
    from that lt have u: "lowerOrEmpty (userType req') = ''staff''" by (simp add: orEmpty_def)
    from that have m: "map_of rolePermissionsTable (orEmpty (role req')) = None" by simp
    show ?thesis by (simp add: permissionDecision_def Let_def u lr rolePermissions_def m)
  qed
  have other: "permissionDecision name req' =
        Respond 403 (errorBody (''Permission required: '' @ name))"
    if "orEmpty (userType req') \<noteq> ''admin'' \<and> orEmpty (userType req') \<noteq> ''staff''"
    using that by (simp add: permissionDecision_def Let_def lt)
  show ?thesis
    using admin sales unknown other by (simp add: rp)
qed

section \<open>Claims about the resolver and the access gate\<close>

text \<open>
  Claim C6, as amended. The credential is picked in this order, first match wins: the
  \<open>Authorization\<close> header with a \<open>Bearer \<close> prefix in any letter case (the token is what
  follows the prefix), then the \<open>x-auth-token\<close> header, then the \<open>x-admin-token\<close> header,
  then the cookies \<open>token\<close>, \<open>authToken\<close> and \<open>adminToken\<close>; whichever is picked is
  trimmed, the Bearer remainder included. If none is present the resolver answers 401 with
  \<open>{success: false, error: "Access token required"}\<close>, the request is left as it was and
  \<open>next()\<close> is not called.
\<close>

theorem C6_credential_order:
  "pickToken req = map_option trim (specFirstMatch (specCredentialPlaces req)) \<and>
   (specFirstMatch (specCredentialPlaces req) = None \<longrightarrow>
      verifyAndAttach verify req =
        (False, req, Some (Respond 401 (errorBody ''Access token required''))) \<and>
      authenticateToken verify req =
        (req, Some (Respond 401 (errorBody ''Access token required''))))"
proof (intro conjI impI)
  show spec: "pickToken req = map_option trim (specFirstMatch (specCredentialPlaces req))"
    by (rule pickToken_spec)
  assume "specFirstMatch (specCredentialPlaces req) = None"
  with spec have none: "pickToken req = None" by simp
  then show va: "verifyAndAttach verify req =
      (False, req, Some (Respond 401 (errorBody ''Access token required'')))"
    by (rule verifyAndAttach_missing)
  then show "authenticateToken verify req =
      (req, Some (Respond 401 (errorBody ''Access token required'')))"
    by (simp add: authenticateToken_def)
qed

theorem C6_credential_order_witness:
  "specFirstMatch (specCredentialPlaces emptyRequest) = None \<and>
   authenticateToken rejectVerify emptyRequest =
     (emptyRequest, Some (Respond 401 (errorBody ''Access token required'')))"
proof -
  have h: "specFirstMatch (specCredentialPlaces emptyRequest) = None" by code_simp
  with C6_credential_order [of emptyRequest rejectVerify] show ?thesis by simp
qed

text \<open>
  Claim C6 as first stated takes the token to be the remainder after the prefix. With two
  spaces after \<open>Bearer\<close> the remainder starts with a space and the token does not.
\<close>

theorem C6_bearer_remainder_counterexample:
  "startsWith (toLowerCase ''Bearer  abc'') ''bearer '' \<and>
   pickToken (bearerRequest ''Bearer  abc'') = Some ''abc'' \<and>
   pickToken (bearerRequest ''Bearer  abc'') \<noteq> Some (drop 7 ''Bearer  abc'')"
  by code_simp




text \<open>
  Claim C8 holds except where the staff role names a property that every object inherits
  (lemma \<open>requirePermission_decisions\<close>). A verified staff identity with role
  \<open>constructor\<close> is in no row of the table, and \<open>requirePermission\<close> neither passes it nor
  answers 403: \<open>rolePermissions[role]\<close> finds the inherited value, the \<open>|| []\<close> fallback is
  skipped and \<open>perms.includes\<close> throws. The role \<open>intern\<close>, also in no row, is answered 403.
\<close>

theorem C8_inherited_role_throws:
  "fst (verifyAndAttach (constVerify constructorPayload) tokenRequest) \<and>
   userType (fst (snd (verifyAndAttach (constVerify constructorPayload) tokenRequest)))
     = Some ''staff'' \<and>
   role (fst (snd (verifyAndAttach (constVerify constructorPayload) tokenRequest)))
     = Some ''constructor'' \<and>
   map_of rolePermissionsTable ''constructor'' = None \<and>
   snd (requirePermission ''users.view'' (constVerify constructorPayload) tokenRequest)
     = Some (Throw ''TypeError: perms.includes is not a function'') \<and>
   snd (requirePermission ''users.view'' (constVerify internPayload) tokenRequest)
     = Some (Respond 403 (errorBody ''Permission required: users.view''))"
  by code_simp

text \<open>
  Claim C9. When the token library rejects the token (bad signature, malformed, expired),
  the resolver answers 401 with \<open>{success: false, error: "Invalid or expired token"}\<close>, the
  request leaves every guard as it entered (no identity field is attached) and no guard
  calls \<open>next()\<close>.
\<close>

theorem C9_invalid_token:
  assumes "pickToken req = Some tok" and "tok \<noteq> []" and "verify tok = None"
  shows "verifyAndAttach verify req =
           (False, req, Some (Respond 401 (errorBody ''Invalid or expired token''))) \<and>
         authenticateToken verify req =
           (req, Some (Respond 401 (errorBody ''Invalid or expired token''))) \<and>
         requireAdmin verify req =
           (req, Some (Respond 401 (errorBody ''Invalid or expired token''))) \<and>
         requireSellerOrAgent verify req =
           (req, Some (Respond 401 (errorBody ''Invalid or expired token''))) \<and>
         requireBuyer verify req =
           (req, Some (Respond 401 (errorBody ''Invalid or expired token''))) \<and>
         requirePermission name verify req =
           (req, Some (Respond 401 (errorBody ''Invalid or expired token'')))"
proof -
  have va: "verifyAndAttach verify req =
      (False, req, Some (Respond 401 (errorBody ''Invalid or expired token'')))"
    using assms by (cases tok) (simp_all add: verifyAndAttach_def)
  then show ?thesis
    by (simp add: authenticateToken_def requireAdmin_def requireSellerOrAgent_def
          requireBuyer_def requirePermission_def)
qed

theorem C9_invalid_token_witness:
  "pickToken (bearerRequest ''Bearer t'') = Some ''t'' \<and> ''t'' \<noteq> [] \<and>
   rejectVerify ''t'' = None \<and>
   authenticateToken rejectVerify (bearerRequest ''Bearer t'') =
     (bearerRequest ''Bearer t'', Some (Respond 401 (errorBody ''Invalid or expired token'')))"
proof -
  have h1: "pickToken (bearerRequest ''Bearer t'') = Some ''t''" by code_simp
  have h2: "''t'' \<noteq> []" by simp
  have h3: "rejectVerify ''t'' = None" by (simp add: rejectVerify_def)
  from C9_invalid_token [of "bearerRequest ''Bearer t''" "''t''" rejectVerify, OF h1 h2 h3] h1 h2 h3
  show ?thesis by simp
qed

section \<open>The free-listing quota\<close>

lemma checkLimitFilter_excludes:
  "checkLimitFilter uid startDate l \<Longrightarrow> packageId l = Absent \<and> isPaid l \<noteq> Val True"
  by (simp add: checkLimitFilter_def)

lemma createGateFilter_iff:
  "createGateFilter uid periodStart l =
     (ownerId l = uid \<and> periodStart \<le> createdAt l \<and>
      (packageId l = Absent \<or> packageId l = Null \<or> isPaid l = Val False))"
  by (auto simp: createGateFilter_def)

lemma createGateFilter_unpaid:
  "ownerId l = uid \<Longrightarrow> periodStart \<le> createdAt l \<Longrightarrow> isPaid l = Val False \<Longrightarrow>
   createGateFilter uid periodStart l"
  by (simp add: createGateFilter_def)

lemma createGateFilter_no_package:
  "ownerId l = uid \<Longrightarrow> periodStart \<le> createdAt l \<Longrightarrow> packageId l = Absent \<Longrightarrow>
   createGateFilter uid periodStart l"
  by (simp add: createGateFilter_def)

text \<open>
  Claim C1 holds for \<open>checkUserFreeAdLimit\<close> (lemma \<open>checkLimitFilter_excludes\<close>) and fails
  for the gate in \<open>createProperty\<close>, whose \<open>$or\<close> also counts a listing that has a package
  id while its \<open>isPaid\<close> is false. User \<open>u1\<close> submits one listing with package \<open>pkg1\<close>,
  with a limit of one free listing: the check-limit route counts no free listing and says
  the user can post free, the creation gate counts one and answers 403.
\<close>

theorem C1_gate_counts_package_listing:
  "fst (snd (createProperty (99 * dayMs) noEnv ''id1'' ownerRequest packageBody (dbWith limitOne [])))
     = dbWith limitOne [packageListing (99 * dayMs)] \<and>
   packageId (packageListing (99 * dayMs)) = Val ''pkg1'' \<and>
   used (fst (checkUserFreeAdLimit (100 * dayMs) ownerRequest
      (dbWith limitOne [packageListing (99 * dayMs)]))) = Some 0 \<and>
   canPostFree (fst (checkUserFreeAdLimit (100 * dayMs) ownerRequest
      (dbWith limitOne [packageListing (99 * dayMs)]))) \<and>
   fst (createProperty (100 * dayMs) noEnv ''id2'' ownerRequest freeBody
      (dbWith limitOne [packageListing (99 * dayMs)]))
     = Respond 403 (limitReachedBody limitOne 1)"
  by code_simp

lemma createProperty_settings_unchanged:
  "settingsDoc (fst (snd (createProperty now e newId req body d))) = settingsDoc d"
  by (simp add: createProperty_def Let_def split: option.splits list.splits)

lemma checkUserFreeAdLimit_store_unchanged:
  "fst (snd (checkUserFreeAdLimit now req d)) = d"
  by (simp add: checkUserFreeAdLimit_def Let_def)

text \<open>
  Claim C2, as amended. The check-limit route leaves the store as it was and property
  creation leaves the settings document as it was. When no settings document exists both
  decide as if the defaults were stored (2 listings per 30 days in the check-limit route;
  \<open>FREE_POST_LIMIT\<close> or 5 per \<open>FREE_POST_PERIOD_DAYS\<close> or 30 days in property creation),
  without storing them; the settings route \<open>getSettings\<close> is the one that stores the defaults.
\<close>

theorem C2_defaults_in_memory:
  "fst (snd (checkUserFreeAdLimit now req d)) = d \<and>
   settingsDoc (fst (snd (createProperty now e newId req body d))) = settingsDoc d \<and>
   (settingsDoc d = None \<longrightarrow>
      fst (checkUserFreeAdLimit now req d)
        = fst (checkUserFreeAdLimit now req (d\<lparr>settingsDoc := Some DEFAULT_SETTINGS\<rparr>)) \<and>
      fst (createProperty now e newId req body d)
        = fst (createProperty now e newId req body (d\<lparr>settingsDoc := Some (envSettings e)\<rparr>)) \<and>
      properties (fst (snd (createProperty now e newId req body d)))
        = properties (fst (snd (createProperty now e newId req body
            (d\<lparr>settingsDoc := Some (envSettings e)\<rparr>)))) \<and>
      settingsDoc (fst (snd (getSettings d))) = Some DEFAULT_SETTINGS)"
proof (intro conjI impI)
  show "fst (snd (checkUserFreeAdLimit now req d)) = d"
    by (rule checkUserFreeAdLimit_store_unchanged)
  show "settingsDoc (fst (snd (createProperty now e newId req body d))) = settingsDoc d"
    by (rule createProperty_settings_unchanged)
next
  assume none: "settingsDoc d = None"
  show "fst (checkUserFreeAdLimit now req d)
        = fst (checkUserFreeAdLimit now req (d\<lparr>settingsDoc := Some DEFAULT_SETTINGS\<rparr>))"
    using none by (simp add: checkUserFreeAdLimit_def Let_def)
  show "fst (createProperty now e newId req body d)
        = fst (createProperty now e newId req body (d\<lparr>settingsDoc := Some (envSettings e)\<rparr>))"
    using none by (simp add: createProperty_def Let_def split: option.splits list.splits)
  show "properties (fst (snd (createProperty now e newId req body d)))
        = properties (fst (snd (createProperty now e newId req body
            (d\<lparr>settingsDoc := Some (envSettings e)\<rparr>))))"
    using none by (simp add: createProperty_def Let_def split: option.splits list.splits)
  show "settingsDoc (fst (snd (getSettings d))) = Some DEFAULT_SETTINGS"
    using none by (simp add: getSettings_def)
qed

theorem C2_defaults_in_memory_witness:
  "settingsDoc emptyDb = None \<and>
   fst (snd (checkUserFreeAdLimit (100 * dayMs) ownerRequest emptyDb)) = emptyDb \<and>
   limit (fst (checkUserFreeAdLimit (100 * dayMs) ownerRequest emptyDb)) = Fin 2 \<and>
   settingsDoc (fst (snd (getSettings emptyDb))) = Some DEFAULT_SETTINGS"
proof -
  have h: "settingsDoc emptyDb = None" by (simp add: emptyDb_def)
  have l: "limit (fst (checkUserFreeAdLimit (100 * dayMs) ownerRequest
      (emptyDb\<lparr>settingsDoc := Some DEFAULT_SETTINGS\<rparr>))) = Fin 2"
    by code_simp
  from C2_defaults_in_memory [of "100 * dayMs" ownerRequest emptyDb noEnv "''id1''" freeBody] h l
  show ?thesis by simp
qed

text \<open>
  Claim C2 as first stated has the defaults stored before the decision is returned. With no
  settings document, neither the check-limit route nor property creation writes one.
\<close>

theorem C2_defaults_not_persisted_counterexample:
  "settingsDoc emptyDb = None \<and>
   settingsDoc (fst (snd (checkUserFreeAdLimit (100 * dayMs) ownerRequest emptyDb))) = None \<and>
   snd (snd (checkUserFreeAdLimit (100 * dayMs) ownerRequest emptyDb))
     = [FindSettings, CountProperties] \<and>
   settingsDoc (fst (snd (createProperty (100 * dayMs) noEnv ''id1'' ownerRequest freeBody emptyDb)))
     = None \<and>
   snd (snd (createProperty (100 * dayMs) noEnv ''id1'' ownerRequest freeBody emptyDb))
     = [FindSettings, CountProperties, InsertProperty (freeListing (100 * dayMs))]"
  by code_simp








text \<open>
  Claim C4. With the quota active, for every store, the check-limit route answers
  \<open>remaining = max(0, limit - used)\<close> and \<open>canPostFree = (remaining > 0)\<close>, where \<open>used\<close> is
  its count of the user's free listings in the window. With limit 2, a count of 2 gives
  \<open>canPostFree = false\<close> and \<open>remaining = 0\<close>, and a count of 1 gives \<open>remaining = 1\<close>.
\<close>

theorem C4_remaining:
  assumes "isActive (checkSettings d)"
  shows "used (fst (checkUserFreeAdLimit now req d)) = Some (checkCount now (userIdString req) d) \<and>
         limit (fst (checkUserFreeAdLimit now req d)) = Fin (maxFreeAdsPerMonth (checkSettings d)) \<and>
         remaining (fst (checkUserFreeAdLimit now req d)) =
           Fin (max 0 (maxFreeAdsPerMonth (checkSettings d) - checkCount now (userIdString req) d)) \<and>
         canPostFree (fst (checkUserFreeAdLimit now req d)) =
           (0 < max 0 (maxFreeAdsPerMonth (checkSettings d) - checkCount now (userIdString req) d)) \<and>
         (maxFreeAdsPerMonth (checkSettings d) = 2 \<and> checkCount now (userIdString req) d = 2 \<longrightarrow>
            \<not> canPostFree (fst (checkUserFreeAdLimit now req d)) \<and>
            remaining (fst (checkUserFreeAdLimit now req d)) = Fin 0) \<and>
         (maxFreeAdsPerMonth (checkSettings d) = 2 \<and> checkCount now (userIdString req) d = 1 \<longrightarrow>
            remaining (fst (checkUserFreeAdLimit now req d)) = Fin 1)"
  using assms
  by (simp add: checkUserFreeAdLimit_def checkSettings_def checkCount_def Let_def)

theorem C4_remaining_witness:
  "isActive (checkSettings (dbWith limitTwo [freeListing (98 * dayMs), freeListing (99 * dayMs)])) \<and>
   checkCount (100 * dayMs) (userIdString ownerRequest)
     (dbWith limitTwo [freeListing (98 * dayMs), freeListing (99 * dayMs)]) = 2 \<and>
   \<not> canPostFree (fst (checkUserFreeAdLimit (100 * dayMs) ownerRequest
       (dbWith limitTwo [freeListing (98 * dayMs), freeListing (99 * dayMs)]))) \<and>
   remaining (fst (checkUserFreeAdLimit (100 * dayMs) ownerRequest
       (dbWith limitTwo [freeListing (98 * dayMs), freeListing (99 * dayMs)]))) = Fin 0 \<and>
   checkCount (100 * dayMs) (userIdString ownerRequest)
     (dbWith limitTwo [freeListing (99 * dayMs)]) = 1 \<and>
   remaining (fst (checkUserFreeAdLimit (100 * dayMs) ownerRequest
       (dbWith limitTwo [freeListing (99 * dayMs)]))) = Fin 1"
proof -
  let ?d2 = "dbWith limitTwo [freeListing (98 * dayMs), freeListing (99 * dayMs)]"
  let ?d1 = "dbWith limitTwo [freeListing (99 * dayMs)]"
  have s: "\<And>ls. checkSettings (dbWith limitTwo ls) = limitTwo"
    by (simp add: checkSettings_def dbWith_def)
  have a: "isActive limitTwo" "maxFreeAdsPerMonth limitTwo = 2" by (simp_all add: limitTwo_def)
  have c2: "checkCount (100 * dayMs) (userIdString ownerRequest) ?d2 = 2" by code_simp
  have c1: "checkCount (100 * dayMs) (userIdString ownerRequest) ?d1 = 1" by code_simp
  have h2: "isActive (checkSettings ?d2)" and h1: "isActive (checkSettings ?d1)"
    by (simp_all add: s a)
  from C4_remaining [OF h2, of "100 * dayMs" ownerRequest] s a c2
  have r2: "\<not> canPostFree (fst (checkUserFreeAdLimit (100 * dayMs) ownerRequest ?d2)) \<and>
     remaining (fst (checkUserFreeAdLimit (100 * dayMs) ownerRequest ?d2)) = Fin 0"
    by simp
  from C4_remaining [OF h1, of "100 * dayMs" ownerRequest] s a c1
  have r1: "remaining (fst (checkUserFreeAdLimit (100 * dayMs) ownerRequest ?d1)) = Fin 1"
    by simp
  from h2 c2 r2 c1 r1 show ?thesis by simp
qed


lemma createProperty_not_403_when_disabled:
  assumes "settingsDoc d = Some st" and "\<not> isActive st"
  shows "createProperty now e newId req body d =
     (case userId req of
        None \<Rightarrow> (Respond 401 (errorBody ''User not authenticated''), d, [])
      | Some [] \<Rightarrow> (Respond 401 (errorBody ''User not authenticated''), d, [])
      | Some uid \<Rightarrow>
          (Respond 201 (createdBody newId),
           d\<lparr>properties := properties d @ [propertyData now req body uid]\<rparr>,
           [FindSettings, InsertProperty (propertyData now req body uid)]))"
  using assms
  by (simp add: createProperty_def Let_def split: option.splits list.splits)

text \<open>
  Claim C5. When the stored settings are not active, the check-limit route answers
  \<open>canPostFree = true\<close> and \<open>systemActive = false\<close> without counting, whatever the
  listings are; property creation makes no count, never answers 403, and inserts the
  listing of every authenticated request.
\<close>

theorem C5_disabled_system:
  assumes "settingsDoc d = Some st" and "\<not> isActive st"
  shows "canPostFree (fst (checkUserFreeAdLimit now req d)) \<and>
         \<not> systemActive (fst (checkUserFreeAdLimit now req d)) \<and>
         remaining (fst (checkUserFreeAdLimit now req d)) = Infinity \<and>
         snd (snd (checkUserFreeAdLimit now req d)) = [FindSettings] \<and>
         CountProperties \<notin> set (snd (snd (createProperty now e newId req body d))) \<and>
         (\<forall>b. fst (createProperty now e newId req body d) \<noteq> Respond 403 b) \<and>
         (\<forall>uid. userId req = Some uid \<and> uid \<noteq> [] \<longrightarrow>
            createProperty now e newId req body d =
              (Respond 201 (createdBody newId),
               d\<lparr>properties := properties d @ [propertyData now req body uid]\<rparr>,
               [FindSettings, InsertProperty (propertyData now req body uid)]))"
proof (intro conjI allI impI)
  show "canPostFree (fst (checkUserFreeAdLimit now req d))"
    and "\<not> systemActive (fst (checkUserFreeAdLimit now req d))"
    and "remaining (fst (checkUserFreeAdLimit now req d)) = Infinity"
    and "snd (snd (checkUserFreeAdLimit now req d)) = [FindSettings]"
    using assms by (simp_all add: checkUserFreeAdLimit_def Let_def)
next
  note cp = createProperty_not_403_when_disabled [OF assms, of now e newId req body]
  show "CountProperties \<notin> set (snd (snd (createProperty now e newId req body d)))"
    by (simp add: cp split: option.splits list.splits)
  show "fst (createProperty now e newId req body d) \<noteq> Respond 403 b" for b
    by (simp add: cp split: option.splits list.splits)
  show "createProperty now e newId req body d =
              (Respond 201 (createdBody newId),
               d\<lparr>properties := properties d @ [propertyData now req body uid]\<rparr>,
               [FindSettings, InsertProperty (propertyData now req body uid)])"
    if "userId req = Some uid \<and> uid \<noteq> []" for uid
    using that by (simp add: cp split: list.splits)
qed

theorem C5_disabled_system_witness:
  "settingsDoc (dbWith disabledSettings [freeListing (97 * dayMs), freeListing (98 * dayMs),
      freeListing (99 * dayMs)]) = Some disabledSettings \<and>
   \<not> isActive disabledSettings \<and>
   canPostFree (fst (checkUserFreeAdLimit (100 * dayMs) ownerRequest
     (dbWith disabledSettings [freeListing (97 * dayMs), freeListing (98 * dayMs),
        freeListing (99 * dayMs)]))) \<and>
   \<not> systemActive (fst (checkUserFreeAdLimit (100 * dayMs) ownerRequest
     (dbWith disabledSettings [freeListing (97 * dayMs), freeListing (98 * dayMs),
        freeListing (99 * dayMs)]))) \<and>
   fst (createProperty (100 * dayMs) noEnv ''id4'' ownerRequest freeBody
     (dbWith disabledSettings [freeListing (97 * dayMs), freeListing (98 * dayMs),
        freeListing (99 * dayMs)])) = Respond 201 (createdBody ''id4'')"
proof -
  let ?d = "dbWith disabledSettings [freeListing (97 * dayMs), freeListing (98 * dayMs),
      freeListing (99 * dayMs)]"
  have h1: "settingsDoc ?d = Some disabledSettings" by (simp add: dbWith_def)
  have h2: "\<not> isActive disabledSettings" by (simp add: disabledSettings_def)
  have u: "userId ownerRequest = Some ''u1'' \<and> ''u1'' \<noteq> []"
    by (simp add: ownerRequest_def emptyRequest_def)
  note T = C5_disabled_system [OF h1 h2, of "100 * dayMs" ownerRequest noEnv "''id4''" freeBody]
  from T u have "createProperty (100 * dayMs) noEnv ''id4'' ownerRequest freeBody ?d =
      (Respond 201 (createdBody ''id4''),
       ?d\<lparr>properties := properties ?d @ [propertyData (100 * dayMs) ownerRequest freeBody ''u1'']\<rparr>,
       [FindSettings, InsertProperty (propertyData (100 * dayMs) ownerRequest freeBody ''u1'')])"
    by blast
  then have c: "fst (createProperty (100 * dayMs) noEnv ''id4'' ownerRequest freeBody ?d)
      = Respond 201 (createdBody ''id4'')" by simp
  from T h1 h2 c show ?thesis by simp
qed

lemma propertyData_moderation:
  "status (propertyData now req body uid) = ''inactive'' \<and>
   isApproved (propertyData now req body uid) = False \<and>
   isPaid (propertyData now req body uid) = Val False \<and>
   paymentStatus (propertyData now req body uid) = ''unpaid'' \<and>
   approvalStatus (propertyData now req body uid) =
     (if packageIdOf body = None then ''pending'' else ''pending_approval'')"
  by (simp add: propertyData_def Let_def)

lemma createProperty_inserts:
  "InsertProperty doc \<in> set (snd (snd (createProperty now e newId req body d))) \<Longrightarrow>
   \<exists>uid. userId req = Some uid \<and> doc = propertyData now req body uid \<and>
     properties (fst (snd (createProperty now e newId req body d))) = properties d @ [doc]"
  by (auto simp: createProperty_def Let_def split: option.splits list.splits if_splits)

lemma createProperty_no_insert:
  "(\<forall>doc. InsertProperty doc \<notin> set (snd (snd (createProperty now e newId req body d)))) \<Longrightarrow>
   fst (snd (createProperty now e newId req body d)) = d"
  by (auto simp: createProperty_def Let_def split: option.splits list.splits if_splits)

text \<open>
  Claim C10. Every document that \<open>createProperty\<close> inserts is appended to the listings
  with status \<open>inactive\<close>, \<open>isApproved\<close> false, \<open>isPaid\<close> false, payment status
  \<open>unpaid\<close>, and approval status \<open>pending\<close> without a package id and \<open>pending_approval\<close>
  with one, whatever the request holds; a call that inserts nothing leaves the store as it was.
\<close>

theorem C10_created_listing_not_live:
  "(\<forall>doc. InsertProperty doc \<in> set (snd (snd (createProperty now e newId req body d))) \<longrightarrow>
      properties (fst (snd (createProperty now e newId req body d))) = properties d @ [doc] \<and>
      status doc = ''inactive'' \<and> isApproved doc = False \<and> isPaid doc = Val False \<and>
      paymentStatus doc = ''unpaid'' \<and>
      approvalStatus doc = (if packageIdOf body = None then ''pending'' else ''pending_approval'')) \<and>
   ((\<forall>doc. InsertProperty doc \<notin> set (snd (snd (createProperty now e newId req body d)))) \<longrightarrow>
      fst (snd (createProperty now e newId req body d)) = d)"
proof (intro conjI allI impI)
  fix doc
  assume ins: "InsertProperty doc \<in> set (snd (snd (createProperty now e newId req body d)))"
  from createProperty_inserts [OF ins] obtain uid where
    doc: "doc = propertyData now req body uid" and
    app: "properties (fst (snd (createProperty now e newId req body d))) = properties d @ [doc]"
    by blast
  show "properties (fst (snd (createProperty now e newId req body d))) = properties d @ [doc]"
    by (rule app)
  show "status doc = ''inactive''" "isApproved doc = False" "isPaid doc = Val False"
    "paymentStatus doc = ''unpaid''"
    "approvalStatus doc = (if packageIdOf body = None then ''pending'' else ''pending_approval'')"
    using propertyData_moderation [of now req body uid] by (simp_all add: doc)
next
  assume "\<forall>doc. InsertProperty doc \<notin> set (snd (snd (createProperty now e newId req body d)))"
  then show "fst (snd (createProperty now e newId req body d)) = d"
    by (rule createProperty_no_insert)
qed

theorem C10_created_listing_not_live_witness:
  "InsertProperty (packageListing (100 * dayMs))
     \<in> set (snd (snd (createProperty (100 * dayMs) noEnv ''id1'' ownerRequest packageBody
          (dbWith limitOne [])))) \<and>
   b_premium packageBody = Some (JStr ''true'') \<and>
   status (packageListing (100 * dayMs)) = ''inactive'' \<and>
   isApproved (packageListing (100 * dayMs)) = False \<and>
   isPaid (packageListing (100 * dayMs)) = Val False \<and>
   paymentStatus (packageListing (100 * dayMs)) = ''unpaid'' \<and>
   approvalStatus (packageListing (100 * dayMs)) = ''pending_approval'' \<and>
   (\<forall>doc. InsertProperty doc \<notin> set (snd (snd (createProperty (100 * dayMs) noEnv ''id1''
       emptyRequest packageBody (dbWith limitOne []))))) \<and>
   fst (snd (createProperty (100 * dayMs) noEnv ''id1'' emptyRequest packageBody
       (dbWith limitOne []))) = dbWith limitOne []"
proof -
  let ?r = "createProperty (100 * dayMs) noEnv ''id1'' ownerRequest packageBody (dbWith limitOne [])"
  let ?q = "createProperty (100 * dayMs) noEnv ''id1'' emptyRequest packageBody (dbWith limitOne [])"
  have ops: "snd (snd ?r) = [FindSettings, InsertProperty (packageListing (100 * dayMs))]"
    by code_simp
  then have ins: "InsertProperty (packageListing (100 * dayMs)) \<in> set (snd (snd ?r))" by simp
  have pk: "packageIdOf packageBody \<noteq> None" by code_simp
  have pr: "b_premium packageBody = Some (JStr ''true'')" by code_simp
  have nops: "snd (snd ?q) = []" by code_simp
  then have none: "\<forall>doc. InsertProperty doc \<notin> set (snd (snd ?q))" by simp
  note T1 = C10_created_listing_not_live [of "100 * dayMs" noEnv "''id1''" ownerRequest packageBody
      "dbWith limitOne []"]
  note T2 = C10_created_listing_not_live [of "100 * dayMs" noEnv "''id1''" emptyRequest packageBody
      "dbWith limitOne []"]
  from T1 ins pk have f: "status (packageListing (100 * dayMs)) = ''inactive'' \<and>
      isApproved (packageListing (100 * dayMs)) = False \<and>
      isPaid (packageListing (100 * dayMs)) = Val False \<and>
      paymentStatus (packageListing (100 * dayMs)) = ''unpaid'' \<and>
      approvalStatus (packageListing (100 * dayMs)) = ''pending_approval''"
    by auto
  from T2 none have g: "fst (snd ?q) = dbWith limitOne []" by blast
  from ins pr f none g show ?thesis by blast
qed

end
